theory Spec2Isabelle
  imports Main
begin

section \<open>Plugin provisioning: \<open>pkg/plugins/plugins.go\<close>\<close>

subsection \<open>Errors and the library functions the code calls\<close>

text \<open>
  A Go \<open>error\<close> value. \<open>errors.New msg\<close> is \<open>New msg\<close>. \<open>fmt.Errorf format args\<close> is kept
  as the format string with its arguments (the rendering of the verbs is the job of package
  \<open>fmt\<close>); an argument is a string (\<open>S\<close>) or, for the verb \<open>%w\<close>, the wrapped error
  (\<open>E\<close>). A \<open>*multierror.Error\<close> with the slice \<open>Errors\<close> is \<open>Multi\<close>.
\<close>

datatype error = New string | Errorf string "arg list" | Multi "error list"
  and arg = S string | E error

text \<open>\<open>strings.HasPrefix\<close>, \<open>strings.HasSuffix\<close> and \<open>strings.Join\<close> of the Go library.\<close>

definition HasPrefix :: "string \<Rightarrow> string \<Rightarrow> bool" where
  "HasPrefix s p = (length p \<le> length s \<and> take (length p) s = p)"

definition HasSuffix :: "string \<Rightarrow> string \<Rightarrow> bool" where
  "HasSuffix s p = (length p \<le> length s \<and> drop (length s - length p) s = p)"

fun Join :: "string list \<Rightarrow> string \<Rightarrow> string" where
  "Join [] sep = []"
| "Join [e] sep = e"
| "Join (e # es) sep = e @ sep @ Join es sep"

text \<open>
  \<open>multierror.Append errs err\<close> with one appended error: a nil error adds nothing, a
  \<open>*multierror.Error\<close> is flattened, any other error is appended. The accumulator is the
  slice \<open>Errors\<close>; a nil \<open>*multierror.Error\<close> and one with no errors are both the empty list,
  which is all \<open>ErrorOrNil\<close> tells apart.
\<close>

fun multierror_Append :: "error list \<Rightarrow> error option \<Rightarrow> error list" where
  "multierror_Append errs None = errs"
| "multierror_Append errs (Some (Multi es)) = errs @ es"
| "multierror_Append errs (Some e) = errs @ [e]"

definition ErrorOrNil :: "error list \<Rightarrow> error option" where
  "ErrorOrNil errs = (if errs = [] then None else Some (Multi errs))"

subsection \<open>Descriptors and Go maps\<close>

text \<open>
  The fields of \<open>Descriptor\<close> and \<open>LocalDescriptor\<close> that the functions read. The field
  \<open>ModuleName\<close> of \<open>LocalDescriptor\<close> is \<open>LModuleName\<close> here, the name being taken by
  \<open>Descriptor\<close>.
\<close>

record Descriptor =
  ModuleName :: string
  Version :: string
  Required :: bool

record LocalDescriptor =
  LModuleName :: string

text \<open>
  A Go \<open>map[string]T\<close>: \<open>None\<close> is the nil map, \<open>Some es\<close> a map with the entries \<open>es\<close>,
  listed in the order in which \<open>range\<close> visits them. Go leaves that order open, so every
  statement below is about an arbitrary list; a map has each key once, which no statement
  below needs. \<open>delete\<close> removes a key and does nothing on a
  nil map.
\<close>

type_synonym 'v gomap = "(string \<times> 'v) list option"

definition entries :: "'v gomap \<Rightarrow> (string \<times> 'v) list" where
  "entries m = (case m of None \<Rightarrow> [] | Some es \<Rightarrow> es)"

definition delete :: "'v gomap \<Rightarrow> string \<Rightarrow> 'v gomap" where
  "delete m k = map_option (filter (\<lambda>(k', v). k' \<noteq> k)) m"

subsection \<open>The client\<close>

text \<open>
  \<open>Client\<close> is declared outside these sources; it is a parameter: six operations on a state
  \<open>'c\<close> of the client's own (the plugin store, the network), each returning its result and
  the next state. \<open>Download\<close> returns the hash or an error.
\<close>

record 'c Client =
  CleanArchives :: "Descriptor gomap \<Rightarrow> 'c \<Rightarrow> error option \<times> 'c"
  Download :: "string \<Rightarrow> string \<Rightarrow> 'c \<Rightarrow> (error + string) \<times> 'c"
  Check :: "string \<Rightarrow> string \<Rightarrow> string \<Rightarrow> 'c \<Rightarrow> error option \<times> 'c"
  Unzip :: "string \<Rightarrow> string \<Rightarrow> 'c \<Rightarrow> error option \<times> 'c"
  ResetAll :: "'c \<Rightarrow> error option \<times> 'c"
  WriteState :: "Descriptor gomap \<Rightarrow> 'c \<Rightarrow> error option \<times> 'c"

text \<open>
  The calls made on the client are recorded, each with the error it returned (\<open>None\<close> is
  nil), in the order they are made.
\<close>

datatype call =
    CleanArchivesCall "Descriptor gomap"
  | DownloadCall string string
  | CheckCall string string string
  | UnzipCall string string
  | ResetAllCall
  | WriteStateCall "Descriptor gomap"

type_synonym trace = "(call \<times> error option) list"

record 'c world =
  store :: 'c
  calls :: trace

definition errOf :: "error + 'a \<Rightarrow> error option" where
  "errOf r = (case r of Inl e \<Rightarrow> Some e | Inr _ \<Rightarrow> None)"

definition client_CleanArchives ::
  "'c Client \<Rightarrow> Descriptor gomap \<Rightarrow> 'c world \<Rightarrow> error option \<times> 'c world" where
  "client_CleanArchives client plugins w =
     (case CleanArchives client plugins (store w) of
        (r, s) \<Rightarrow> (r, \<lparr>store = s, calls = calls w @ [(CleanArchivesCall plugins, r)]\<rparr>))"

definition client_Download ::
  "'c Client \<Rightarrow> string \<Rightarrow> string \<Rightarrow> 'c world \<Rightarrow> (error + string) \<times> 'c world" where
  "client_Download client m v w =
     (case Download client m v (store w) of
        (r, s) \<Rightarrow> (r, \<lparr>store = s, calls = calls w @ [(DownloadCall m v, errOf r)]\<rparr>))"

definition client_Check ::
  "'c Client \<Rightarrow> string \<Rightarrow> string \<Rightarrow> string \<Rightarrow> 'c world \<Rightarrow> error option \<times> 'c world" where
  "client_Check client m v h w =
     (case Check client m v h (store w) of
        (r, s) \<Rightarrow> (r, \<lparr>store = s, calls = calls w @ [(CheckCall m v h, r)]\<rparr>))"

definition client_Unzip ::
  "'c Client \<Rightarrow> string \<Rightarrow> string \<Rightarrow> 'c world \<Rightarrow> error option \<times> 'c world" where
  "client_Unzip client m v w =
     (case Unzip client m v (store w) of
        (r, s) \<Rightarrow> (r, \<lparr>store = s, calls = calls w @ [(UnzipCall m v, r)]\<rparr>))"

definition client_ResetAll :: "'c Client \<Rightarrow> 'c world \<Rightarrow> error option \<times> 'c world" where
  "client_ResetAll client w =
     (case ResetAll client (store w) of
        (r, s) \<Rightarrow> (r, \<lparr>store = s, calls = calls w @ [(ResetAllCall, r)]\<rparr>))"

definition client_WriteState ::
  "'c Client \<Rightarrow> Descriptor gomap \<Rightarrow> 'c world \<Rightarrow> error option \<times> 'c world" where
  "client_WriteState client plugins w =
     (case WriteState client plugins (store w) of
        (r, s) \<Rightarrow> (r, \<lparr>store = s, calls = calls w @ [(WriteStateCall plugins, r)]\<rparr>))"

subsection \<open>\<open>checkRemotePluginsConfiguration\<close>\<close>

text \<open>
  The body of the \<open>range\<close> loop for one entry, on the set \<open>uniq\<close> and the slice \<open>errs\<close>;
  \<open>continue\<close> leaves the body with \<open>uniq\<close> as it is.
\<close>

definition checkRemote_body ::
  "string \<times> Descriptor \<Rightarrow> string set \<times> string list \<Rightarrow> string set \<times> string list" where
  "checkRemote_body e st =
     (case (e, st) of ((pAlias, descriptor), (uniq, errs0)) \<Rightarrow>
        let errs1 = (if ModuleName descriptor = [] then errs0 @ [pAlias @ '': plugin name is missing'']
                     else errs0);
            errs2 = (if Version descriptor = [] then errs1 @ [pAlias @ '': plugin version is missing'']
                     else errs1)
        in if HasPrefix (ModuleName descriptor) ''/'' \<or> HasSuffix (ModuleName descriptor) ''/''
           then (uniq, errs2 @ [pAlias @ '': plugin name should not start or end with a /''])
           else if ModuleName descriptor \<in> uniq
           then (uniq, errs2 @ [''only one version of a plugin is allowed, there is a duplicate of ''
                                @ ModuleName descriptor])
           else (insert (ModuleName descriptor) uniq, errs2))"

fun checkRemote_range ::
  "(string \<times> Descriptor) list \<Rightarrow> string set \<times> string list \<Rightarrow> string set \<times> string list" where
  "checkRemote_range [] st = st"
| "checkRemote_range (e # es) st = checkRemote_range es (checkRemote_body e st)"

definition checkRemotePluginsConfiguration :: "Descriptor gomap \<Rightarrow> error option" where
  "checkRemotePluginsConfiguration plugins =
     (case plugins of
        None \<Rightarrow> None
      | Some es \<Rightarrow>
          (let errs = snd (checkRemote_range es ({}, []))
           in if length errs > 0 then Some (New (Join errs '': '')) else None))"

subsection \<open>\<open>SetupRemotePlugins\<close>\<close>

text \<open>
  The body of the \<open>range\<close> loop for one plugin, on the slice \<open>unavailablePlugins\<close> and the
  world: the result is the error of a \<open>return\<close>, or \<open>None\<close> when the body ends or leaves
  by \<open>continue\<close>. The result of \<open>ResetAll\<close> is dropped. The log lines are not modelled.
\<close>

definition setup_body ::
  "'c Client \<Rightarrow> string \<times> Descriptor \<Rightarrow> string list \<times> 'c world
     \<Rightarrow> error option \<times> string list \<times> 'c world" where
  "setup_body client e st =
     (case (e, st) of ((pAlias, desc), (unavailablePlugins, w)) \<Rightarrow>
        (case client_Download client (ModuleName desc) (Version desc) w of
           (Inl err, w1) \<Rightarrow>
             (case client_ResetAll client w1 of (_, w2) \<Rightarrow>
                if \<not> Required desc
                then (None, unavailablePlugins @ [pAlias], w2)
                else (Some (Errorf ''unable to download plugin %s: %w''
                              [S (ModuleName desc), E err]),
                      unavailablePlugins, w2))
         | (Inr hash, w1) \<Rightarrow>
             (case client_Check client (ModuleName desc) (Version desc) hash w1 of
                (Some err, w2) \<Rightarrow>
                  (case client_ResetAll client w2 of (_, w3) \<Rightarrow>
                     if \<not> Required desc
                     then (None, unavailablePlugins @ [pAlias], w3)
                     else (Some (Errorf ''unable to check archive integrity of the plugin %s: %w''
                                   [S (ModuleName desc), E err]),
                           unavailablePlugins, w3))
              | (None, w2) \<Rightarrow>
                  (case client_Unzip client (ModuleName desc) (Version desc) w2 of
                     (Some err, w3) \<Rightarrow>
                       (case client_ResetAll client w3 of (_, w4) \<Rightarrow>
                          if \<not> Required desc
                          then (None, unavailablePlugins @ [pAlias], w4)
                          else (Some (Errorf ''unable to unzip archive: %w'' [E err]),
                                unavailablePlugins, w4))
                   | (None, w3) \<Rightarrow> (None, unavailablePlugins, w3)))))"

text \<open>The loop: a \<open>return\<close> in the body ends it, otherwise the next plugin follows.\<close>

fun setup_range ::
  "'c Client \<Rightarrow> (string \<times> Descriptor) list \<Rightarrow> string list \<times> 'c world
     \<Rightarrow> error option \<times> string list \<times> 'c world" where
  "setup_range client [] st = (None, st)"
| "setup_range client (e # rest) st =
     (case setup_body client e st of
        (Some err, st') \<Rightarrow> (Some err, st')
      | (None, st') \<Rightarrow> setup_range client rest st')"

text \<open>
  \<open>SetupRemotePlugins\<close> returns its error; the model returns with it the map \<open>plugins\<close> as the
  call leaves it (a Go map is shared with the caller, so \<open>delete\<close> acts on the caller's map)
  and the world.
\<close>

definition SetupRemotePlugins ::
  "'c Client \<Rightarrow> Descriptor gomap \<Rightarrow> 'c world \<Rightarrow> error option \<times> Descriptor gomap \<times> 'c world" where
  "SetupRemotePlugins client plugins w =
     (case checkRemotePluginsConfiguration plugins of
        Some err \<Rightarrow> (Some (Errorf ''invalid configuration: %w'' [E err]), plugins, w)
      | None \<Rightarrow>
          (case client_CleanArchives client plugins w of
             (Some err, w1) \<Rightarrow> (Some (Errorf ''unable to clean archives: %w'' [E err]), plugins, w1)
           | (None, w1) \<Rightarrow>
               (case setup_range client (entries plugins) ([], w1) of
                  (Some err, unavailablePlugins, w2) \<Rightarrow> (Some err, plugins, w2)
                | (None, unavailablePlugins, w2) \<Rightarrow>
                    (let plugins' = foldl delete plugins unavailablePlugins
                     in case client_WriteState client plugins' w2 of
                          (Some err, w3) \<Rightarrow>
                            (case client_ResetAll client w3 of (_, w4) \<Rightarrow>
                               (Some (Errorf ''unable to write plugins state: %w'' [E err]), plugins', w4))
                        | (None, w3) \<Rightarrow> (None, plugins', w3)))))"

subsection \<open>\<open>checkLocalPluginManifest\<close> and \<open>SetupLocalPlugins\<close>\<close>

text \<open>The fields of \<open>Manifest\<close> that the functions read; \<open>TestData = None\<close> is nil.\<close>

record 't Manifest =
  Type :: string
  Runtime :: string
  Import :: string
  DisplayName :: string
  Summary :: string
  TestData :: "'t option"

text \<open>
  Modelled from the spec: the constants \<open>typeMiddleware\<close>, \<open>typeProvider\<close>, \<open>runtimeYaegi\<close>
  and \<open>runtimeWasm\<close> are declared outside these sources. The spec names the two types
  \<open>middleware\<close> and \<open>provider\<close> and the two runtimes \<open>interpreted\<close> and
  \<open>sandboxed-bytecode\<close>, all different and none empty.
\<close>

definition typeMiddleware :: string where
  "typeMiddleware = ''middleware''"

definition typeProvider :: string where
  "typeProvider = ''provider''"

definition runtimeYaegi :: string where
  "runtimeYaegi = ''interpreted''"

definition runtimeWasm :: string where
  "runtimeWasm = ''sandboxed-bytecode''"

definition localGoPath :: string where
  "localGoPath = ''./plugins-local/''"

text \<open>
  \<open>ReadManifest\<close> and the method \<open>IsYaegiPlugin\<close> are declared outside these sources; they
  are parameters.
\<close>

record 't externals =
  ReadManifest :: "string \<Rightarrow> string \<Rightarrow> error + 't Manifest"
  IsYaegiPlugin :: "'t Manifest \<Rightarrow> bool"

text \<open>The format \<open>%s: unsupported runtime '%q'\<close>, which holds two single quotes.\<close>

definition unsupportedRuntimeFormat :: string where
  "unsupportedRuntimeFormat = ''%s: unsupported runtime '' @ [CHR 0x27] @ ''%q'' @ [CHR 0x27]"

text \<open>
  The checks of \<open>checkLocalPluginManifest\<close> on the manifest \<open>m\<close> it has read: the value of
  \<open>errs\<close> at the final \<open>return\<close>.
\<close>

definition manifest_errs :: "'t externals \<Rightarrow> LocalDescriptor \<Rightarrow> 't Manifest \<Rightarrow> error list" where
  "manifest_errs ext descriptor m =
     (let errs0 = [];
          errs1 =
            (if Type m = typeMiddleware then
               (if Runtime m \<noteq> runtimeYaegi \<and> Runtime m \<noteq> runtimeWasm \<and> Runtime m \<noteq> []
                then multierror_Append errs0
                       (Some (Errorf unsupportedRuntimeFormat [S (LModuleName descriptor), S (Runtime m)]))
                else errs0)
             else if Type m = typeProvider then
               (if Runtime m \<noteq> runtimeYaegi \<and> Runtime m \<noteq> []
                then multierror_Append errs0
                       (Some (Errorf unsupportedRuntimeFormat [S (LModuleName descriptor), S (Runtime m)]))
                else errs0)
             else multierror_Append errs0
                    (Some (Errorf ''%s: unsupported type %q'' [S (LModuleName descriptor), S (Type m)])));
          errs3 =
            (if IsYaegiPlugin ext m then
               (let errs2 = (if Import m = []
                             then multierror_Append errs1
                                    (Some (Errorf ''%s: missing import'' [S (LModuleName descriptor)]))
                             else errs1)
                in if \<not> HasPrefix (Import m) (LModuleName descriptor)
                   then multierror_Append errs2
                          (Some (Errorf ''the import %q must be related to the module name %q''
                                   [S (Import m), S (LModuleName descriptor)]))
                   else errs2)
             else errs1);
          errs4 = (if DisplayName m = []
                   then multierror_Append errs3
                          (Some (Errorf ''%s: missing DisplayName'' [S (LModuleName descriptor)]))
                   else errs3);
          errs5 = (if Summary m = []
                   then multierror_Append errs4
                          (Some (Errorf ''%s: missing Summary'' [S (LModuleName descriptor)]))
                   else errs4)
      in if TestData m = None
         then multierror_Append errs5
                (Some (Errorf ''%s: missing TestData'' [S (LModuleName descriptor)]))
         else errs5)"

definition checkLocalPluginManifest :: "'t externals \<Rightarrow> LocalDescriptor \<Rightarrow> error option" where
  "checkLocalPluginManifest ext descriptor =
     (case ReadManifest ext localGoPath (LModuleName descriptor) of
        Inl err \<Rightarrow> Some err
      | Inr m \<Rightarrow> ErrorOrNil (manifest_errs ext descriptor m))"

text \<open>The body of the \<open>range\<close> loop of \<open>SetupLocalPlugins\<close> for one entry.\<close>

definition setupLocal_body ::
  "'t externals \<Rightarrow> string \<times> LocalDescriptor \<Rightarrow> string set \<times> error list
     \<Rightarrow> string set \<times> error list" where
  "setupLocal_body ext e st =
     (case (e, st) of ((pAlias, descriptor), (uniq, errs0)) \<Rightarrow>
        let errs1 = (if LModuleName descriptor = []
                     then multierror_Append errs0 (Some (Errorf ''%s: plugin name is missing'' [S pAlias]))
                     else errs0)
        in if HasPrefix (LModuleName descriptor) ''/'' \<or> HasSuffix (LModuleName descriptor) ''/''
           then (uniq, multierror_Append errs1
                         (Some (Errorf ''%s: plugin name should not start or end with a /'' [S pAlias])))
           else if LModuleName descriptor \<in> uniq
           then (uniq, multierror_Append errs1
                         (Some (Errorf ''only one version of a plugin is allowed, there is a duplicate of %s''
                                  [S (LModuleName descriptor)])))
           else (insert (LModuleName descriptor) uniq,
                 multierror_Append errs1 (checkLocalPluginManifest ext descriptor)))"

fun setupLocal_range ::
  "'t externals \<Rightarrow> (string \<times> LocalDescriptor) list \<Rightarrow> string set \<times> error list
     \<Rightarrow> string set \<times> error list" where
  "setupLocal_range ext [] st = st"
| "setupLocal_range ext (e # es) st = setupLocal_range ext es (setupLocal_body ext e st)"

definition SetupLocalPlugins :: "'t externals \<Rightarrow> LocalDescriptor gomap \<Rightarrow> error option" where
  "SetupLocalPlugins ext plugins =
     (case plugins of
        None \<Rightarrow> None
      | Some es \<Rightarrow> ErrorOrNil (snd (setupLocal_range ext es ({}, []))))"

subsection \<open>Notions used in the statements\<close>

text \<open>The calls made between two worlds: what the later log holds beyond the earlier one.\<close>

definition made :: "'c world \<Rightarrow> 'c world \<Rightarrow> trace" where
  "made w w' = drop (length (calls w)) (calls w')"

definition isWriteState :: "call \<times> error option \<Rightarrow> bool" where
  "isWriteState cx = (case fst cx of WriteStateCall p \<Rightarrow> True | _ \<Rightarrow> False)"

text \<open>A call that downloads, checks or unzips the module and version of a descriptor.\<close>

definition entry_call :: "Descriptor \<Rightarrow> call \<Rightarrow> bool" where
  "entry_call d c =
     (case c of
        DownloadCall m v \<Rightarrow> m = ModuleName d \<and> v = Version d
      | CheckCall m v h \<Rightarrow> m = ModuleName d \<and> v = Version d
      | UnzipCall m v \<Rightarrow> m = ModuleName d \<and> v = Version d
      | _ \<Rightarrow> False)"

text \<open>An entry on which \<open>checkRemotePluginsConfiguration\<close> finds no fault of its own.\<close>

definition entry_ok :: "string \<times> Descriptor \<Rightarrow> bool" where
  "entry_ok e = (ModuleName (snd e) \<noteq> [] \<and> Version (snd e) \<noteq> [] \<and>
     \<not> HasPrefix (ModuleName (snd e)) ''/'' \<and> \<not> HasSuffix (ModuleName (snd e)) ''/'')"

text \<open>
  What one run of the loop body, and of the loop, can leave behind: the returned error, the
  aliases appended to \<open>unavailablePlugins\<close> and the calls made.
\<close>

inductive body_run :: "string \<times> Descriptor \<Rightarrow> error option \<Rightarrow> string list \<Rightarrow> trace \<Rightarrow> bool" where
  installed:
    "body_run (a, d) None []
       [(DownloadCall (ModuleName d) (Version d), None),
        (CheckCall (ModuleName d) (Version d) h, None),
        (UnzipCall (ModuleName d) (Version d), None)]"
| download_required:
    "Required d \<Longrightarrow>
     body_run (a, d) (Some (Errorf ''unable to download plugin %s: %w'' [S (ModuleName d), E err])) []
       [(DownloadCall (ModuleName d) (Version d), Some err), (ResetAllCall, x)]"
| download_optional:
    "\<not> Required d \<Longrightarrow>
     body_run (a, d) None [a]
       [(DownloadCall (ModuleName d) (Version d), Some err), (ResetAllCall, x)]"
| check_required:
    "Required d \<Longrightarrow>
     body_run (a, d)
       (Some (Errorf ''unable to check archive integrity of the plugin %s: %w''
                [S (ModuleName d), E err])) []
       [(DownloadCall (ModuleName d) (Version d), None),
        (CheckCall (ModuleName d) (Version d) h, Some err), (ResetAllCall, x)]"
| check_optional:
    "\<not> Required d \<Longrightarrow>
     body_run (a, d) None [a]
       [(DownloadCall (ModuleName d) (Version d), None),
        (CheckCall (ModuleName d) (Version d) h, Some err), (ResetAllCall, x)]"
| unzip_required:
    "Required d \<Longrightarrow>
     body_run (a, d) (Some (Errorf ''unable to unzip archive: %w'' [E err])) []
       [(DownloadCall (ModuleName d) (Version d), None),
        (CheckCall (ModuleName d) (Version d) h, None),
        (UnzipCall (ModuleName d) (Version d), Some err), (ResetAllCall, x)]"
| unzip_optional:
    "\<not> Required d \<Longrightarrow>
     body_run (a, d) None [a]
       [(DownloadCall (ModuleName d) (Version d), None),
        (CheckCall (ModuleName d) (Version d) h, None),
        (UnzipCall (ModuleName d) (Version d), Some err), (ResetAllCall, x)]"

inductive range_run ::
  "(string \<times> Descriptor) list \<Rightarrow> error option \<Rightarrow> string list \<Rightarrow> trace \<Rightarrow> bool" where
  finished: "range_run [] None [] []"
| returned: "body_run e (Some err) U T \<Longrightarrow> range_run (e # es) (Some err) U T"
| continued: "body_run e None U1 T1 \<Longrightarrow> range_run es r U2 T2 \<Longrightarrow>
         range_run (e # es) r (U1 @ U2) (T1 @ T2)"

text \<open>An error made with the format of the unsupported-runtime violation.\<close>

definition isUnsupportedRuntime :: "error \<Rightarrow> bool" where
  "isUnsupportedRuntime e = (case e of Errorf f args \<Rightarrow> f = unsupportedRuntimeFormat | _ \<Rightarrow> False)"

text \<open>
  The violations of the checks that follow the \<open>switch\<close> in \<open>checkLocalPluginManifest\<close>:
  import, display name, summary and test data.
\<close>

definition field_errs :: "'t externals \<Rightarrow> LocalDescriptor \<Rightarrow> 't Manifest \<Rightarrow> error list" where
  "field_errs ext descriptor m =
     (if IsYaegiPlugin ext m
      then (if Import m = [] then [Errorf ''%s: missing import'' [S (LModuleName descriptor)]] else []) @
           (if \<not> HasPrefix (Import m) (LModuleName descriptor)
            then [Errorf ''the import %q must be related to the module name %q''
                    [S (Import m), S (LModuleName descriptor)]]
            else [])
      else []) @
     (if DisplayName m = [] then [Errorf ''%s: missing DisplayName'' [S (LModuleName descriptor)]] else []) @
     (if Summary m = [] then [Errorf ''%s: missing Summary'' [S (LModuleName descriptor)]] else []) @
     (if TestData m = None then [Errorf ''%s: missing TestData'' [S (LModuleName descriptor)]] else [])"

subsection \<open>Example clients and mappings\<close>

text \<open>
  A client without state whose \<open>Download\<close> fails for the modules of the first set and whose
  \<open>Check\<close> fails for the modules of the second set; every other call succeeds.
\<close>

definition stub_client :: "string set \<Rightarrow> string set \<Rightarrow> unit Client" where
  "stub_client noDownload noCheck =
     \<lparr>CleanArchives = (\<lambda>p s. (None, s)),
      Download = (\<lambda>m v s. (if m \<in> noDownload then Inl (New ''download failed'') else Inr ''hash'', s)),
      Check = (\<lambda>m v h s. (if m \<in> noCheck then Some (New ''bad hash'') else None, s)),
      Unzip = (\<lambda>m v s. (None, s)),
      ResetAll = (\<lambda>s. (None, s)),
      WriteState = (\<lambda>p s. (None, s))\<rparr>"

definition w0 :: "unit world" where
  "w0 = \<lparr>store = (), calls = []\<rparr>"

definition required_foo :: Descriptor where
  "required_foo = \<lparr>ModuleName = ''foo/bar'', Version = ''v1'', Required = True\<rparr>"

definition optional_opt :: Descriptor where
  "optional_opt = \<lparr>ModuleName = ''opt'', Version = ''v2'', Required = False\<rparr>"

definition two_plugins :: "Descriptor gomap" where
  "two_plugins = Some [(''a'', required_foo), (''b'', optional_opt)]"

text \<open>
  A manifest of a provider with the sandboxed-bytecode runtime, and externals that find this
  manifest for the module \<open>prov\<close> and none for any other module.
\<close>

definition wasm_provider :: "unit Manifest" where
  "wasm_provider =
     \<lparr>Type = typeProvider, Runtime = runtimeWasm, Import = [], DisplayName = [],
      Summary = ''a provider'', TestData = None\<rparr>"

definition stub_externals :: "unit externals" where
  "stub_externals =
     \<lparr>ReadManifest = (\<lambda>root name. if name = ''prov'' then Inr wasm_provider
                                    else Inl (New ''manifest not found'')),
      IsYaegiPlugin = (\<lambda>m. Runtime m = runtimeYaegi \<or> Runtime m = [])\<rparr>"

definition plain_foo :: Descriptor where
  "plain_foo = \<lparr>ModuleName = ''foo'', Version = ''v1'', Required = True\<rparr>"

definition slash_bar :: Descriptor where
  "slash_bar = \<lparr>ModuleName = ''/bar'', Version = ''v1'', Required = True\<rparr>"

definition unnamed :: Descriptor where
  "unnamed = \<lparr>ModuleName = [], Version = ''v1'', Required = False\<rparr>"

section \<open>Properties\<close>

subsection \<open>Validation of remote references\<close>

lemma checkRemote_body_errs_grow:
  "\<exists>X. snd (checkRemote_body e (uniq, errs)) = errs @ X"
  by (cases e) (simp add: checkRemote_body_def Let_def)

lemma checkRemote_range_errs_grow:
  "\<exists>X. snd (checkRemote_range es (uniq, errs)) = errs @ X"
proof (induction es arbitrary: uniq errs)
  case Nil
  then show ?case by simp
next
  case (Cons e es)
  obtain u1 e1 where b: "checkRemote_body e (uniq, errs) = (u1, e1)" by force
  from checkRemote_body_errs_grow[of e uniq errs] b obtain X where X: "e1 = errs @ X" by auto
  from Cons.IH[of u1 e1] obtain Y where "snd (checkRemote_range es (u1, e1)) = e1 @ Y" by blast
  with b X show ?case by simp
qed

lemma checkRemote_body_clean:
  "snd (checkRemote_body e (uniq, errs)) = errs \<longleftrightarrow> entry_ok e \<and> ModuleName (snd e) \<notin> uniq"
  by (cases e) (auto simp add: checkRemote_body_def Let_def entry_ok_def)

lemma checkRemote_body_clean_uniq:
  "entry_ok e \<Longrightarrow> ModuleName (snd e) \<notin> uniq \<Longrightarrow>
   checkRemote_body e (uniq, errs) = (insert (ModuleName (snd e)) uniq, errs)"
  by (cases e) (auto simp add: checkRemote_body_def Let_def entry_ok_def)

lemma checkRemote_range_clean:
  "snd (checkRemote_range es (uniq, errs)) = errs \<longleftrightarrow>
     (\<forall>e \<in> set es. entry_ok e) \<and> distinct (map (ModuleName \<circ> snd) es) \<and>
     (ModuleName \<circ> snd) ` set es \<inter> uniq = {}"
proof (induction es arbitrary: uniq errs)
  case Nil
  then show ?case by simp
next
  case (Cons e es)
  obtain u1 e1 where b: "checkRemote_body e (uniq, errs) = (u1, e1)" by force
  show ?case
  proof (cases "entry_ok e \<and> ModuleName (snd e) \<notin> uniq")
    case True
    with b checkRemote_body_clean_uniq[of e uniq errs]
    have "u1 = insert (ModuleName (snd e)) uniq" "e1 = errs" by auto
    with b Cons.IH[of u1 errs] True show ?thesis by auto
  next
    case False
    with checkRemote_body_clean[of e uniq errs] b have ne: "e1 \<noteq> errs" by auto
    from checkRemote_body_errs_grow[of e uniq errs] b obtain X where X: "e1 = errs @ X" by auto
    with ne have "X \<noteq> []" by auto
    from checkRemote_range_errs_grow[of es u1 e1] obtain Y
      where "snd (checkRemote_range es (u1, e1)) = e1 @ Y" by blast
    with X \<open>X \<noteq> []\<close> b have "snd (checkRemote_range (e # es) (uniq, errs)) \<noteq> errs" by simp
    with False show ?thesis by auto
  qed
qed

lemma checkRemote_valid_iff:
  "checkRemotePluginsConfiguration (Some es) = None \<longleftrightarrow>
     (\<forall>e \<in> set es. entry_ok e) \<and> distinct (map (ModuleName \<circ> snd) es)"
  using checkRemote_range_clean[of es "{}" "[]"]
  by (simp add: checkRemotePluginsConfiguration_def Let_def)

text \<open>
  Whether validation passes does not depend on the order in which \<open>range\<close> visits the
  entries: two lists of the entries of one map pass or fail together.
\<close>

lemma checkRemote_valid_order_independent:
  assumes "distinct (map fst es)" "distinct (map fst es')" "set es = set es'"
  shows "checkRemotePluginsConfiguration (Some es) = None \<longleftrightarrow>
         checkRemotePluginsConfiguration (Some es') = None"
proof -
  from assms(1,2) have d: "distinct es" "distinct es'" by (simp_all add: distinct_map)
  have "distinct (map (ModuleName \<circ> snd) es) \<longleftrightarrow> distinct (map (ModuleName \<circ> snd) es')"
    using d assms(3) by (simp add: distinct_map)
  with assms(3) show ?thesis by (simp add: checkRemote_valid_iff)
qed

lemma names_distinct_same:
  assumes "distinct (map (ModuleName \<circ> snd) es)" "e \<in> set es" "e' \<in> set es"
    "ModuleName (snd e) = ModuleName (snd e')"
  shows "e = e'"
  using assms by (metis comp_apply distinct_map inj_onD)

subsection \<open>The loop of \<open>SetupRemotePlugins\<close> and its calls\<close>

lemmas client_defs = client_Download_def client_Check_def client_Unzip_def client_ResetAll_def

lemma setup_body_run:
  assumes "setup_body client e (u, w) = (r, u', w')"
  shows "\<exists>U T. u' = u @ U \<and> calls w' = calls w @ T \<and> body_run e r U T"
proof -
  obtain a d where e: "e = (a, d)" by (cases e)
  obtain r1 s1 where D: "Download client (ModuleName d) (Version d) (store w) = (r1, s1)" by force
  show ?thesis
  proof (cases r1)
    case (Inl err)
    obtain x s2 where R: "ResetAll client s1 = (x, s2)" by force
    from assms e D Inl R show ?thesis
      by (cases "Required d")
         (auto simp: setup_body_def client_defs errOf_def intro: body_run.intros)
  next
    case (Inr h)
    obtain r2 s2 where C: "Check client (ModuleName d) (Version d) h s1 = (r2, s2)" by force
    show ?thesis
    proof (cases r2)
      case (Some err)
      obtain x s3 where R: "ResetAll client s2 = (x, s3)" by force
      from assms e D Inr C Some R show ?thesis
        by (cases "Required d")
           (auto simp: setup_body_def client_defs errOf_def intro: body_run.intros)
    next
      case None
      obtain r3 s3 where U: "Unzip client (ModuleName d) (Version d) s2 = (r3, s3)" by force
      show ?thesis
      proof (cases r3)
        case (Some err)
        obtain x s4 where R: "ResetAll client s3 = (x, s4)" by force
        from assms e D Inr C None U Some R show ?thesis
          by (cases "Required d")
             (auto simp: setup_body_def client_defs errOf_def intro: body_run.intros)
      next
        case N3: None
        from assms e D Inr C None U N3 show ?thesis
          by (auto simp: setup_body_def client_defs errOf_def intro: body_run.intros)
      qed
    qed
  qed
qed

lemma setup_range_run:
  "setup_range client es (u, w) = (r, u', w') \<Longrightarrow>
   \<exists>U T. u' = u @ U \<and> calls w' = calls w @ T \<and> range_run es r U T"
proof (induction es arbitrary: u w)
  case Nil
  then show ?case by (auto intro: range_run.intros)
next
  case (Cons e es)
  obtain rb ub wb where b: "setup_body client e (u, w) = (rb, ub, wb)"
    by (metis prod_cases3)
  from setup_body_run[OF b] obtain U1 T1
    where 1: "ub = u @ U1" "calls wb = calls w @ T1" "body_run e rb U1 T1" by blast
  show ?case
  proof (cases rb)
    case None
    with Cons.prems b have "setup_range client es (ub, wb) = (r, u', w')" by simp
    from Cons.IH[OF this] obtain U2 T2
      where 2: "u' = ub @ U2" "calls w' = calls wb @ T2" "range_run es r U2 T2" by blast
    from 1 2 None have "range_run (e # es) r (U1 @ U2) (T1 @ T2)"
      by (auto intro: range_run.continued)
    with 1 2 show ?thesis by auto
  next
    case (Some err)
    with Cons.prems b have "r = Some err" "u' = ub" "w' = wb" by auto
    with 1 Some show ?thesis by (auto intro: range_run.returned)
  qed
qed

lemma entries_foldl_delete:
  "entries (foldl delete m U) = filter (\<lambda>(k, v). k \<notin> set U) (entries m)"
proof (induction U arbitrary: m)
  case Nil
  then show ?case by simp
next
  case (Cons k U)
  have "entries (delete m k) = filter (\<lambda>(k', v). k' \<noteq> k) (entries m)"
    by (cases m) (simp_all add: delete_def entries_def)
  with Cons[of "delete m k"] show ?case
    by (auto simp: case_prod_unfold intro: filter_cong)
qed

lemma body_run_calls:
  "body_run e r U T \<Longrightarrow> (c, x) \<in> set T \<Longrightarrow> c = ResetAllCall \<or> entry_call (snd e) c"
  by (induction rule: body_run.induct) (auto simp: entry_call_def)

lemma range_run_calls:
  "range_run es r U T \<Longrightarrow> (c, x) \<in> set T \<Longrightarrow>
   c = ResetAllCall \<or> (\<exists>e \<in> set es. entry_call (snd e) c)"
  by (induction rule: range_run.induct) (auto dest: body_run_calls)

lemma body_run_installed:
  "body_run (a, d) None U T \<Longrightarrow> a \<notin> set U \<Longrightarrow>
   \<exists>h. (DownloadCall (ModuleName d) (Version d), None) \<in> set T \<and>
       (CheckCall (ModuleName d) (Version d) h, None) \<in> set T \<and>
       (UnzipCall (ModuleName d) (Version d), None) \<in> set T"
  by (erule body_run.cases) auto

lemma range_run_installed:
  "range_run es r U T \<Longrightarrow> r = None \<Longrightarrow> (a, d) \<in> set es \<Longrightarrow> a \<notin> set U \<Longrightarrow>
   \<exists>h. (DownloadCall (ModuleName d) (Version d), None) \<in> set T \<and>
       (CheckCall (ModuleName d) (Version d) h, None) \<in> set T \<and>
       (UnzipCall (ModuleName d) (Version d), None) \<in> set T"
proof (induction rule: range_run.induct)
  case finished
  then show ?case by simp
next
  case (returned e err U T es)
  then show ?case by simp
next
  case (continued e U1 T1 es r U2 T2)
  show ?case
  proof (cases "e = (a, d)")
    case True
    with continued(1,6) body_run_installed[of a d U1 T1] show ?thesis by auto
  next
    case False
    with continued have "\<exists>h. (DownloadCall (ModuleName d) (Version d), None) \<in> set T2 \<and>
       (CheckCall (ModuleName d) (Version d) h, None) \<in> set T2 \<and>
       (UnzipCall (ModuleName d) (Version d), None) \<in> set T2" by auto
    then show ?thesis by auto
  qed
qed

lemma body_run_all_ok:
  "body_run e r U T \<Longrightarrow> \<forall>(c, x) \<in> set T. x = None \<Longrightarrow> r = None \<and> U = []"
  by (induction rule: body_run.induct) auto

lemma range_run_all_ok:
  "range_run es r U T \<Longrightarrow> \<forall>(c, x) \<in> set T. x = None \<Longrightarrow> r = None \<and> U = []"
proof (induction rule: range_run.induct)
  case finished
  then show ?case by simp
next
  case (returned e err U T es)
  with body_run_all_ok[of e "Some err" U T] show ?case by simp
next
  case (continued e U1 T1 es r U2 T2)
  with body_run_all_ok[of e None U1 T1] show ?case by auto
qed



lemma body_run_failure:
  "body_run e r U T \<Longrightarrow> r \<noteq> None \<or> U \<noteq> [] \<Longrightarrow>
   \<exists>c err. (c, Some err) \<in> set T \<and> c \<noteq> ResetAllCall \<and> entry_call (snd e) c"
  by (induction rule: body_run.induct) (auto simp: entry_call_def)

lemma body_run_failed_call:
  "body_run e r U T \<Longrightarrow> (c, Some err) \<in> set T \<Longrightarrow> c \<noteq> ResetAllCall \<Longrightarrow>
   entry_call (snd e) c \<and> (if Required (snd e) then r \<noteq> None else U = [fst e])"
  by (induction rule: body_run.induct) (auto simp: entry_call_def)

lemma body_run_return_required:
  "body_run e (Some err) U T \<Longrightarrow> Required (snd e)"
  by (erule body_run.cases) auto

lemma range_run_return:
  "range_run es r U T \<Longrightarrow> r \<noteq> None \<Longrightarrow>
   \<exists>e \<in> set es. Required (snd e) \<and>
     (\<exists>c err. (c, Some err) \<in> set T \<and> c \<noteq> ResetAllCall \<and> entry_call (snd e) c)"
proof (induction rule: range_run.induct)
  case finished
  then show ?case by simp
next
  case (returned e err U T es)
  from body_run_return_required[OF returned(1)] body_run_failure[OF returned(1)]
  show ?case by auto
next
  case (continued e U1 T1 es r U2 T2)
  then show ?case by auto
qed

lemma range_run_failed_optional:
  "range_run es r U T \<Longrightarrow> (c, Some err) \<in> set T \<Longrightarrow> c \<noteq> ResetAllCall \<Longrightarrow>
   \<forall>e \<in> set es. entry_call (snd e) c \<longrightarrow> \<not> Required (snd e) \<and> fst e = a \<Longrightarrow>
   a \<in> set U"
proof (induction rule: range_run.induct)
  case finished
  then show ?case by simp
next
  case (returned e err' U T es)
  with body_run_failed_call[OF returned(1), of c err] body_run_return_required[OF returned(1)]
  show ?case by auto
next
  case (continued e U1 T1 es r U2 T2)
  show ?case
  proof (cases "(c, Some err) \<in> set T1")
    case True
    with body_run_failed_call[OF continued(1), of c err] continued(5,6)
    show ?thesis by auto
  next
    case False
    with continued show ?thesis by auto
  qed
qed



lemma range_run_no_write:
  assumes "range_run es r U T"
  shows "filter isWriteState T = []"
proof -
  have "\<not> isWriteState cx" if "cx \<in> set T" for cx
  proof -
    obtain c x where cx: "cx = (c, x)" by (cases cx)
    from range_run_calls[OF assms, of c x] that cx show ?thesis
      by (auto simp: isWriteState_def entry_call_def split: call.splits)
  qed
  then show ?thesis by (simp add: filter_empty_conv)
qed

lemma filter_isWriteState_run:
  assumes "range_run es r U T"
  shows "filter isWriteState ((CleanArchivesCall p, x) # T @ [(WriteStateCall p', y)]) =
           [(WriteStateCall p', y)]"
  using range_run_no_write[OF assms] by (simp add: isWriteState_def)

lemma SetupRemotePlugins_cases:
  assumes "SetupRemotePlugins client plugins w = (r, plugins', w')"
  obtains
    (invalid) err where "checkRemotePluginsConfiguration plugins = Some err"
      "r = Some (Errorf ''invalid configuration: %w'' [E err])" "plugins' = plugins" "w' = w"
  | (clean_failed) err where "checkRemotePluginsConfiguration plugins = None"
      "made w w' = [(CleanArchivesCall plugins, Some err)]"
      "r = Some (Errorf ''unable to clean archives: %w'' [E err])" "plugins' = plugins"
  | (aborted) err U T where "checkRemotePluginsConfiguration plugins = None"
      "made w w' = (CleanArchivesCall plugins, None) # T"
      "range_run (entries plugins) (Some err) U T" "r = Some err" "plugins' = plugins"
  | (write_failed) err U T x where "checkRemotePluginsConfiguration plugins = None"
      "made w w' = (CleanArchivesCall plugins, None) # T @
                     [(WriteStateCall plugins', Some err), (ResetAllCall, x)]"
      "range_run (entries plugins) None U T" "plugins' = foldl delete plugins U"
      "r = Some (Errorf ''unable to write plugins state: %w'' [E err])"
  | (success) U T where "checkRemotePluginsConfiguration plugins = None"
      "made w w' = (CleanArchivesCall plugins, None) # T @ [(WriteStateCall plugins', None)]"
      "range_run (entries plugins) None U T" "plugins' = foldl delete plugins U" "r = None"
proof (cases "checkRemotePluginsConfiguration plugins")
  case (Some err)
  with assms have "r = Some (Errorf ''invalid configuration: %w'' [E err])" "plugins' = plugins" "w' = w"
    by (simp_all add: SetupRemotePlugins_def)
  with Some show ?thesis using invalid by blast
next
  case None
  obtain rc sc where C: "CleanArchives client plugins (store w) = (rc, sc)" by force
  define w1 where "w1 = \<lparr>store = sc, calls = calls w @ [(CleanArchivesCall plugins, rc)]\<rparr>"
  have cl: "client_CleanArchives client plugins w = (rc, w1)"
    by (simp add: client_CleanArchives_def C w1_def)
  show ?thesis
  proof (cases rc)
    case (Some err)
    with assms None cl have "r = Some (Errorf ''unable to clean archives: %w'' [E err])"
      "plugins' = plugins" "w' = w1" by (auto simp: SetupRemotePlugins_def)
    moreover from \<open>w' = w1\<close> Some have "made w w' = [(CleanArchivesCall plugins, Some err)]"
      by (simp add: made_def w1_def)
    ultimately show ?thesis using clean_failed None by blast
  next
    case rcNone: None
    obtain rl ul wl where L: "setup_range client (entries plugins) ([], w1) = (rl, ul, wl)"
      by (metis prod_cases3)
    from setup_range_run[OF L] obtain T
      where T: "calls wl = calls w1 @ T" "range_run (entries plugins) rl ul T" by auto
    show ?thesis
    proof (cases rl)
      case (Some err)
      with assms None cl rcNone L have "r = Some err" "plugins' = plugins" "w' = wl"
        by (auto simp: SetupRemotePlugins_def)
      moreover from \<open>w' = wl\<close> T rcNone have "made w w' = (CleanArchivesCall plugins, None) # T"
        by (simp add: made_def w1_def)
      ultimately show ?thesis using aborted None T Some by blast
    next
      case rlNone: None
      define p' where "p' = foldl delete plugins ul"
      obtain rw sw where W: "WriteState client p' (store wl) = (rw, sw)" by force
      define w3 where "w3 = \<lparr>store = sw, calls = calls wl @ [(WriteStateCall p', rw)]\<rparr>"
      have wr: "client_WriteState client p' wl = (rw, w3)"
        by (simp add: client_WriteState_def W w3_def)
      show ?thesis
      proof (cases rw)
        case (Some err)
        obtain x s4 where R: "ResetAll client sw = (x, s4)" by force
        from assms None cl rcNone L rlNone wr Some R
        have 1: "r = Some (Errorf ''unable to write plugins state: %w'' [E err])"
          "plugins' = p'" "w' = \<lparr>store = s4, calls = calls w3 @ [(ResetAllCall, x)]\<rparr>"
          by (auto simp: SetupRemotePlugins_def p'_def Let_def client_ResetAll_def w3_def)
        with T rcNone Some
        have "made w w' = (CleanArchivesCall plugins, None) # T @
                     [(WriteStateCall plugins', Some err), (ResetAllCall, x)]"
          by (simp add: made_def w1_def w3_def)
        with 1 T rlNone None show ?thesis using write_failed p'_def by blast
      next
        case rwNone: None
        from assms None cl rcNone L rlNone wr rwNone
        have 1: "r = None" "plugins' = p'" "w' = w3"
          by (auto simp: SetupRemotePlugins_def p'_def Let_def)
        with T rcNone rwNone
        have "made w w' = (CleanArchivesCall plugins, None) # T @ [(WriteStateCall plugins', None)]"
          by (simp add: made_def w1_def w3_def)
        with 1 T rlNone None show ?thesis using success p'_def by blast
      qed
    qed
  qed
qed

lemma all_ok_run:
  assumes "SetupRemotePlugins client plugins w = (r, plugins', w')"
    and "\<forall>(c, x) \<in> set (made w w'). x = None"
  shows "plugins' = plugins \<and>
         (checkRemotePluginsConfiguration plugins = None \<longrightarrow>
            r = None \<and> filter isWriteState (made w w') = [(WriteStateCall plugins, None)]) \<and>
         (checkRemotePluginsConfiguration plugins \<noteq> None \<longrightarrow>
            filter isWriteState (made w w') = [])"
  using assms(1)
proof (cases rule: SetupRemotePlugins_cases)
  case (invalid e)
  then show ?thesis by (simp add: made_def)
next
  case (clean_failed e)
  with assms(2) show ?thesis by simp
next
  case (aborted e U T)
  with assms(2) have "\<forall>(c, x) \<in> set T. x = None" by simp
  from range_run_all_ok[OF aborted(3) this] show ?thesis by simp
next
  case (write_failed e U T x)
  with assms(2) show ?thesis by simp
next
  case (success U T)
  with assms(2) have "\<forall>(c, x) \<in> set T. x = None" by simp
  from range_run_all_ok[OF success(3) this] have "U = []" by simp
  with success filter_isWriteState_run[OF success(3)] show ?thesis by simp
qed

lemmas eval_defs =
  SetupRemotePlugins_def checkRemotePluginsConfiguration_def checkRemote_body_def
  HasPrefix_def HasSuffix_def entries_def delete_def setup_body_def
  client_CleanArchives_def client_Download_def client_Check_def client_Unzip_def
  client_ResetAll_def client_WriteState_def stub_client_def errOf_def w0_def made_def
  isWriteState_def Let_def

lemmas example_defs = required_foo_def optional_opt_def two_plugins_def

subsection \<open>The violations of one entry among the others\<close>

lemma checkRemote_range_append:
  "checkRemote_range (xs @ ys) st = checkRemote_range ys (checkRemote_range xs st)"
  by (induction xs arbitrary: st) simp_all

lemma checkRemote_body_errs:
  "checkRemote_body e (uniq, errs) =
     (fst (checkRemote_body e (uniq, [])), errs @ snd (checkRemote_body e (uniq, [])))"
  by (cases e) (simp add: checkRemote_body_def Let_def)

lemma checkRemote_range_errs:
  "checkRemote_range es (uniq, errs) =
     (fst (checkRemote_range es (uniq, [])), errs @ snd (checkRemote_range es (uniq, [])))"
proof (induction es arbitrary: uniq errs)
  case Nil
  then show ?case by simp
next
  case (Cons e es)
  obtain u1 e1 where b: "checkRemote_body e (uniq, []) = (u1, e1)" by force
  with checkRemote_body_errs[of e uniq errs]
  have b': "checkRemote_body e (uniq, errs) = (u1, errs @ e1)" by simp
  from Cons.IH[of u1 "errs @ e1"] Cons.IH[of u1 e1] b b' show ?case by simp
qed

lemma checkRemote_range_split:
  "snd (checkRemote_range (pre @ e # post) ({}, [])) =
     snd (checkRemote_range pre ({}, [])) @
     snd (checkRemote_body e (fst (checkRemote_range pre ({}, [])), [])) @
     snd (checkRemote_range post
            (fst (checkRemote_body e (fst (checkRemote_range pre ({}, [])), [])), []))"
proof -
  obtain u1 e1 where p: "checkRemote_range pre ({}, []) = (u1, e1)" by force
  obtain u2 e2 where b: "checkRemote_body e (u1, []) = (u2, e2)" by force
  from checkRemote_body_errs[of e u1 e1] b
  have b': "checkRemote_body e (u1, e1) = (u2, e1 @ e2)" by simp
  from checkRemote_range_errs[of post u2 "e1 @ e2"]
  have "snd (checkRemote_range post (u2, e1 @ e2)) =
          e1 @ e2 @ snd (checkRemote_range post (u2, []))" by simp
  with p b b' show ?thesis by (simp add: checkRemote_range_append)
qed

lemma checkRemote_body_short_circuit:
  assumes "HasPrefix (ModuleName d) ''/'' \<or> HasSuffix (ModuleName d) ''/'' \<or> ModuleName d \<in> uniq"
  shows "checkRemote_body (a, d) (uniq, []) =
     (uniq,
      (if ModuleName d = [] then [a @ '': plugin name is missing''] else []) @
      (if Version d = [] then [a @ '': plugin version is missing''] else []) @
      [if HasPrefix (ModuleName d) ''/'' \<or> HasSuffix (ModuleName d) ''/''
       then a @ '': plugin name should not start or end with a /''
       else ''only one version of a plugin is allowed, there is a duplicate of '' @ ModuleName d])"
  using assms by (auto simp: checkRemote_body_def Let_def)





lemma checkRemote_nonempty_error:
  "snd (checkRemote_range es ({}, [])) \<noteq> [] \<Longrightarrow>
   checkRemotePluginsConfiguration (Some es) =
     Some (New (Join (snd (checkRemote_range es ({}, []))) '': ''))"
  by (simp add: checkRemotePluginsConfiguration_def Let_def)


subsection \<open>The local validator\<close>

lemma multierror_Append_errs: "multierror_Append errs x = errs @ multierror_Append [] x"
proof (cases x)
  case None
  then show ?thesis by simp
next
  case (Some e)
  then show ?thesis by (cases e) simp_all
qed

lemma setupLocal_range_append:
  "setupLocal_range ext (xs @ ys) st = setupLocal_range ext ys (setupLocal_range ext xs st)"
  by (induction xs arbitrary: st) simp_all

lemma setupLocal_body_errs:
  "setupLocal_body ext e (uniq, errs) =
     (fst (setupLocal_body ext e (uniq, [])), errs @ snd (setupLocal_body ext e (uniq, [])))"
proof -
  obtain a d where e: "e = (a, d)" by (cases e)
  have app: "multierror_Append (errs @ ys) x = errs @ multierror_Append ys x" for ys x
    using multierror_Append_errs[of "errs @ ys" x] multierror_Append_errs[of ys x] by simp
  show ?thesis unfolding e
    using app[of "[]"] by (simp add: setupLocal_body_def Let_def app)
qed

lemma setupLocal_range_errs:
  "setupLocal_range ext es (uniq, errs) =
     (fst (setupLocal_range ext es (uniq, [])), errs @ snd (setupLocal_range ext es (uniq, [])))"
proof (induction es arbitrary: uniq errs)
  case Nil
  then show ?case by simp
next
  case (Cons e es)
  obtain u1 e1 where b: "setupLocal_body ext e (uniq, []) = (u1, e1)" by force
  with setupLocal_body_errs[of ext e uniq errs]
  have b': "setupLocal_body ext e (uniq, errs) = (u1, errs @ e1)" by simp
  from Cons.IH[of u1 "errs @ e1"] Cons.IH[of u1 e1] b b' show ?case by simp
qed

lemma setupLocal_range_split:
  "snd (setupLocal_range ext (pre @ e # post) ({}, [])) =
     snd (setupLocal_range ext pre ({}, [])) @
     snd (setupLocal_body ext e (fst (setupLocal_range ext pre ({}, [])), [])) @
     snd (setupLocal_range ext post
            (fst (setupLocal_body ext e (fst (setupLocal_range ext pre ({}, [])), [])), []))"
proof -
  obtain u1 e1 where p: "setupLocal_range ext pre ({}, []) = (u1, e1)" by force
  obtain u2 e2 where b: "setupLocal_body ext e (u1, []) = (u2, e2)" by force
  from setupLocal_body_errs[of ext e u1 e1] b
  have b': "setupLocal_body ext e (u1, e1) = (u2, e1 @ e2)" by simp
  from setupLocal_range_errs[of ext post u2 "e1 @ e2"]
  have "snd (setupLocal_range ext post (u2, e1 @ e2)) =
          e1 @ e2 @ snd (setupLocal_range ext post (u2, []))" by simp
  with p b b' show ?thesis by (simp add: setupLocal_range_append)
qed

lemma setupLocal_body_short_circuit:
  assumes "HasPrefix (LModuleName l) ''/'' \<or> HasSuffix (LModuleName l) ''/'' \<or> LModuleName l \<in> uniq"
  shows "setupLocal_body ext (b, l) (uniq, []) =
     (uniq,
      (if LModuleName l = [] then [Errorf ''%s: plugin name is missing'' [S b]] else []) @
      [if HasPrefix (LModuleName l) ''/'' \<or> HasSuffix (LModuleName l) ''/''
       then Errorf ''%s: plugin name should not start or end with a /'' [S b]
       else Errorf ''only one version of a plugin is allowed, there is a duplicate of %s''
              [S (LModuleName l)]])"
  using assms by (auto simp: setupLocal_body_def Let_def)




lemma SetupLocalPlugins_nonempty_error:
  "snd (setupLocal_range ext es ({}, [])) \<noteq> [] \<Longrightarrow>
   SetupLocalPlugins ext (Some es) = Some (Multi (snd (setupLocal_range ext es ({}, []))))"
  by (simp add: SetupLocalPlugins_def ErrorOrNil_def)


lemma constants_distinct:
  "typeMiddleware \<noteq> typeProvider" "runtimeWasm \<noteq> runtimeYaegi" "runtimeWasm \<noteq> []"
  by (simp_all add: typeMiddleware_def typeProvider_def runtimeWasm_def runtimeYaegi_def)

lemma unsupportedRuntimeFormat_neq:
  "unsupportedRuntimeFormat \<noteq> ''%s: unsupported type %q''"
  "unsupportedRuntimeFormat \<noteq> ''%s: missing import''"
  "unsupportedRuntimeFormat \<noteq> ''the import %q must be related to the module name %q''"
  "unsupportedRuntimeFormat \<noteq> ''%s: missing DisplayName''"
  "unsupportedRuntimeFormat \<noteq> ''%s: missing Summary''"
  "unsupportedRuntimeFormat \<noteq> ''%s: missing TestData''"
  by (simp_all add: unsupportedRuntimeFormat_def)

lemma field_errs_no_runtime: "filter isUnsupportedRuntime (field_errs ext descriptor m) = []"
  by (simp add: field_errs_def isUnsupportedRuntime_def unsupportedRuntimeFormat_neq
      unsupportedRuntimeFormat_neq[symmetric])

lemma manifest_errs_split:
  "manifest_errs ext descriptor m =
     (if Type m = typeMiddleware then
        (if Runtime m \<noteq> runtimeYaegi \<and> Runtime m \<noteq> runtimeWasm \<and> Runtime m \<noteq> []
         then [Errorf unsupportedRuntimeFormat [S (LModuleName descriptor), S (Runtime m)]] else [])
      else if Type m = typeProvider then
        (if Runtime m \<noteq> runtimeYaegi \<and> Runtime m \<noteq> []
         then [Errorf unsupportedRuntimeFormat [S (LModuleName descriptor), S (Runtime m)]] else [])
      else [Errorf ''%s: unsupported type %q'' [S (LModuleName descriptor), S (Type m)]]) @
     field_errs ext descriptor m"
  by (simp add: manifest_errs_def field_errs_def Let_def)

lemmas validation_defs =
  checkRemote_body_def setupLocal_body_def checkLocalPluginManifest_def HasPrefix_def
  HasSuffix_def Let_def plain_foo_def slash_bar_def unnamed_def stub_externals_def
  localGoPath_def

section \<open>The claims on \<open>SetupRemotePlugins\<close>\<close>

text \<open>
  Claim C1. When \<open>SetupRemotePlugins\<close> returns nil, every alias still in the mapping has had
  its \<open>Download\<close>, its \<open>Check\<close> and its \<open>Unzip\<close> return nil during the run, and the run
  calls \<open>WriteState\<close> once, with the mapping as the run leaves it.
\<close>

theorem success_postcondition:
  assumes "SetupRemotePlugins client plugins w = (None, plugins', w')"
  shows "(\<forall>(a, d) \<in> set (entries plugins').
            (DownloadCall (ModuleName d) (Version d), None) \<in> set (made w w') \<and>
            (\<exists>h. (CheckCall (ModuleName d) (Version d) h, None) \<in> set (made w w')) \<and>
            (UnzipCall (ModuleName d) (Version d), None) \<in> set (made w w')) \<and>
         filter isWriteState (made w w') = [(WriteStateCall plugins', None)]"
  using assms
proof (cases rule: SetupRemotePlugins_cases)
  case (success U T)
  have "(DownloadCall (ModuleName d) (Version d), None) \<in> set (made w w') \<and>
        (\<exists>h. (CheckCall (ModuleName d) (Version d) h, None) \<in> set (made w w')) \<and>
        (UnzipCall (ModuleName d) (Version d), None) \<in> set (made w w')"
    if "(a, d) \<in> set (entries plugins')" for a d
  proof -
    from that success(4) have "(a, d) \<in> set (entries plugins)" "a \<notin> set U"
      by (auto simp: entries_foldl_delete)
    from range_run_installed[OF success(3) refl this] success(2) show ?thesis by auto
  qed
  moreover from filter_isWriteState_run[OF success(3)] success(2)
  have "filter isWriteState (made w w') = [(WriteStateCall plugins', None)]" by simp
  ultimately show ?thesis by auto
qed simp_all

theorem success_postcondition_witness:
  "SetupRemotePlugins (stub_client {''opt''} {}) two_plugins w0 =
     (None, Some [(''a'', required_foo)],
      \<lparr>store = (),
       calls = [(CleanArchivesCall two_plugins, None),
                (DownloadCall ''foo/bar'' ''v1'', None),
                (CheckCall ''foo/bar'' ''v1'' ''hash'', None),
                (UnzipCall ''foo/bar'' ''v1'', None),
                (DownloadCall ''opt'' ''v2'', Some (New ''download failed'')),
                (ResetAllCall, None),
                (WriteStateCall (Some [(''a'', required_foo)]), None)]\<rparr>) \<and>
   filter isWriteState (made w0 (snd (snd (SetupRemotePlugins (stub_client {''opt''} {}) two_plugins w0))))
     = [(WriteStateCall (Some [(''a'', required_foo)]), None)] \<and>
   (DownloadCall ''foo/bar'' ''v1'', None)
     \<in> set (made w0 (snd (snd (SetupRemotePlugins (stub_client {''opt''} {}) two_plugins w0)))) \<and>
   (UnzipCall ''foo/bar'' ''v1'', None)
     \<in> set (made w0 (snd (snd (SetupRemotePlugins (stub_client {''opt''} {}) two_plugins w0))))"
proof -
  have run: "SetupRemotePlugins (stub_client {''opt''} {}) two_plugins w0 =
     (None, Some [(''a'', required_foo)],
      \<lparr>store = (),
       calls = [(CleanArchivesCall two_plugins, None),
                (DownloadCall ''foo/bar'' ''v1'', None),
                (CheckCall ''foo/bar'' ''v1'' ''hash'', None),
                (UnzipCall ''foo/bar'' ''v1'', None),
                (DownloadCall ''opt'' ''v2'', Some (New ''download failed'')),
                (ResetAllCall, None),
                (WriteStateCall (Some [(''a'', required_foo)]), None)]\<rparr>)"
    by (simp add: eval_defs example_defs)
  have mem: "(''a'', required_foo) \<in> set (entries (Some [(''a'', required_foo)]))"
    by (simp add: entries_def)
  from success_postcondition[OF run] mem
  have "(DownloadCall (ModuleName required_foo) (Version required_foo), None)
          \<in> set (made w0 (snd (snd (SetupRemotePlugins (stub_client {''opt''} {}) two_plugins w0))))"
    "(UnzipCall (ModuleName required_foo) (Version required_foo), None)
          \<in> set (made w0 (snd (snd (SetupRemotePlugins (stub_client {''opt''} {}) two_plugins w0))))"
    "filter isWriteState
       (made w0 (snd (snd (SetupRemotePlugins (stub_client {''opt''} {}) two_plugins w0))))
     = [(WriteStateCall (Some [(''a'', required_foo)]), None)]"
    by (simp_all only: run snd_conv) blast+
  then show ?thesis using run by (simp add: required_foo_def)
qed



text \<open>
  Claim C3. When the \<open>Check\<close> of one non-required reference fails and no other call fails
  (\<open>ResetAll\<close>, whose result is dropped, left aside), \<open>SetupRemotePlugins\<close> returns nil, and
  the alias of that reference is absent from the mapping after the run, which is the mapping
  passed to \<open>WriteState\<close>.
\<close>

theorem optional_check_failure_skips:
  assumes "SetupRemotePlugins client plugins w = (r, plugins', w')"
    and "(a, d) \<in> set (entries plugins)" and "\<not> Required d"
    and "(CheckCall (ModuleName d) (Version d) h, Some err) \<in> set (made w w')"
    and "\<forall>(c, x) \<in> set (made w w').
           x \<noteq> None \<longrightarrow> c = ResetAllCall \<or> c = CheckCall (ModuleName d) (Version d) h"
  shows "r = None \<and> a \<notin> fst ` set (entries plugins') \<and>
         filter isWriteState (made w w') = [(WriteStateCall plugins', None)]"
proof -
  have only: "\<forall>e \<in> set (entries plugins).
      entry_call (snd e) (CheckCall (ModuleName d) (Version d) h) \<longrightarrow> \<not> Required (snd e) \<and> fst e = a"
    if "checkRemotePluginsConfiguration plugins = None"
  proof -
    from assms(2) obtain es where es: "plugins = Some es" by (cases plugins) (auto simp: entries_def)
    with that have "distinct (map (ModuleName \<circ> snd) es)" by (simp add: checkRemote_valid_iff)
    with es assms(2) have "e = (a, d)"
      if "e \<in> set (entries plugins)" "ModuleName (snd e) = ModuleName d" for e
      using that names_distinct_same[of es e "(a, d)"] by (simp add: entries_def)
    then have "e = (a, d)"
      if "e \<in> set (entries plugins)"
        "entry_call (snd e) (CheckCall (ModuleName d) (Version d) h)" for e
      using that by (simp add: entry_call_def)
    then show ?thesis
    proof (intro ballI impI)
      fix e assume "e \<in> set (entries plugins)"
        "entry_call (snd e) (CheckCall (ModuleName d) (Version d) h)"
      with \<open>\<And>e. e \<in> set (entries plugins) \<Longrightarrow>
          entry_call (snd e) (CheckCall (ModuleName d) (Version d) h) \<Longrightarrow> e = (a, d)\<close>
      have "e = (a, d)" by blast
      with assms(3) show "\<not> Required (snd e) \<and> fst e = a" by simp
    qed
  qed
  from assms(1) show ?thesis
  proof (cases rule: SetupRemotePlugins_cases)
    case (invalid e)
    with assms(4) show ?thesis by (simp add: made_def)
  next
    case (clean_failed e)
    with assms(4) show ?thesis by simp
  next
    case (aborted e U T)
    from range_run_return[OF aborted(3)] obtain e' c err'
      where e': "e' \<in> set (entries plugins)" "Required (snd e')" "(c, Some err') \<in> set T"
        "c \<noteq> ResetAllCall" "entry_call (snd e') c" by auto
    with assms(5) aborted(2) have "c = CheckCall (ModuleName d) (Version d) h" by auto
    with only[OF aborted(1)] e' show ?thesis by auto
  next
    case (write_failed e U T x)
    with assms(5) show ?thesis by auto
  next
    case (success U T)
    with assms(4) have "(CheckCall (ModuleName d) (Version d) h, Some err) \<in> set T" by simp
    from range_run_failed_optional[OF success(3) this _ only[OF success(1)]]
    have "a \<in> set U" by simp
    with success(4) have "a \<notin> fst ` set (entries plugins')"
      by (auto simp: entries_foldl_delete)
    with success filter_isWriteState_run[OF success(3)] show ?thesis by simp
  qed
qed

theorem optional_check_failure_skips_witness:
  "SetupRemotePlugins (stub_client {} {''opt''}) two_plugins w0 =
     (None, Some [(''a'', required_foo)],
      \<lparr>store = (),
       calls = [(CleanArchivesCall two_plugins, None),
                (DownloadCall ''foo/bar'' ''v1'', None),
                (CheckCall ''foo/bar'' ''v1'' ''hash'', None),
                (UnzipCall ''foo/bar'' ''v1'', None),
                (DownloadCall ''opt'' ''v2'', None),
                (CheckCall ''opt'' ''v2'' ''hash'', Some (New ''bad hash'')),
                (ResetAllCall, None),
                (WriteStateCall (Some [(''a'', required_foo)]), None)]\<rparr>) \<and>
   ''b'' \<notin> fst ` set (entries (Some [(''a'', required_foo)])) \<and>
   filter isWriteState (made w0 (snd (snd (SetupRemotePlugins (stub_client {} {''opt''}) two_plugins w0))))
     = [(WriteStateCall (Some [(''a'', required_foo)]), None)]"
proof -
  have run: "SetupRemotePlugins (stub_client {} {''opt''}) two_plugins w0 =
     (None, Some [(''a'', required_foo)],
      \<lparr>store = (),
       calls = [(CleanArchivesCall two_plugins, None),
                (DownloadCall ''foo/bar'' ''v1'', None),
                (CheckCall ''foo/bar'' ''v1'' ''hash'', None),
                (UnzipCall ''foo/bar'' ''v1'', None),
                (DownloadCall ''opt'' ''v2'', None),
                (CheckCall ''opt'' ''v2'' ''hash'', Some (New ''bad hash'')),
                (ResetAllCall, None),
                (WriteStateCall (Some [(''a'', required_foo)]), None)]\<rparr>)"
    by (simp add: eval_defs example_defs)
  have mem: "(''b'', optional_opt) \<in> set (entries two_plugins)"
    by (simp add: entries_def two_plugins_def)
  have opt: "\<not> Required optional_opt" by (simp add: optional_opt_def)
  have ck: "(CheckCall (ModuleName optional_opt) (Version optional_opt) ''hash'', Some (New ''bad hash''))
      \<in> set (made w0 \<lparr>store = (),
       calls = [(CleanArchivesCall two_plugins, None),
                (DownloadCall ''foo/bar'' ''v1'', None),
                (CheckCall ''foo/bar'' ''v1'' ''hash'', None),
                (UnzipCall ''foo/bar'' ''v1'', None),
                (DownloadCall ''opt'' ''v2'', None),
                (CheckCall ''opt'' ''v2'' ''hash'', Some (New ''bad hash'')),
                (ResetAllCall, None),
                (WriteStateCall (Some [(''a'', required_foo)]), None)]\<rparr>)"
    by (simp add: made_def w0_def optional_opt_def)
  have only: "\<forall>(c, x) \<in> set (made w0 \<lparr>store = (),
       calls = [(CleanArchivesCall two_plugins, None),
                (DownloadCall ''foo/bar'' ''v1'', None),
                (CheckCall ''foo/bar'' ''v1'' ''hash'', None),
                (UnzipCall ''foo/bar'' ''v1'', None),
                (DownloadCall ''opt'' ''v2'', None),
                (CheckCall ''opt'' ''v2'' ''hash'', Some (New ''bad hash'')),
                (ResetAllCall, None),
                (WriteStateCall (Some [(''a'', required_foo)]), None)]\<rparr>).
       x \<noteq> None \<longrightarrow> c = ResetAllCall \<or>
         c = CheckCall (ModuleName optional_opt) (Version optional_opt) ''hash''"
    by (simp add: made_def w0_def optional_opt_def)
  from optional_check_failure_skips[OF run mem opt ck only] run show ?thesis
    by (simp only: snd_conv, blast?)
qed

text \<open>
  Claim C4. When validation reports a violation, \<open>SetupRemotePlugins\<close> returns that error
  wrapped as an invalid configuration and leaves the world as it was: no call is made on the
  client. Two entries with the same module name are always a violation.
\<close>

theorem invalid_configuration_no_client_call:
  "(checkRemotePluginsConfiguration plugins = Some err \<longrightarrow>
      SetupRemotePlugins client plugins w =
        (Some (Errorf ''invalid configuration: %w'' [E err]), plugins, w) \<and>
      made w (snd (snd (SetupRemotePlugins client plugins w))) = []) \<and>
   (i < j \<and> j < length es \<and> ModuleName (snd (es ! i)) = ModuleName (snd (es ! j)) \<longrightarrow>
      checkRemotePluginsConfiguration (Some es) \<noteq> None)"
proof -
  have "SetupRemotePlugins client plugins w =
          (Some (Errorf ''invalid configuration: %w'' [E err]), plugins, w)"
    if "checkRemotePluginsConfiguration plugins = Some err"
    using that by (simp add: SetupRemotePlugins_def)
  moreover have "checkRemotePluginsConfiguration (Some es) \<noteq> None"
    if "i < j" "j < length es" "ModuleName (snd (es ! i)) = ModuleName (snd (es ! j))"
  proof
    assume "checkRemotePluginsConfiguration (Some es) = None"
    then have "distinct (map (ModuleName \<circ> snd) es)" by (simp add: checkRemote_valid_iff)
    with that show False by (auto simp: distinct_conv_nth)
  qed
  ultimately show ?thesis by (simp add: made_def)
qed

theorem invalid_configuration_no_client_call_witness:
  "checkRemotePluginsConfiguration
     (Some [(''a'', \<lparr>ModuleName = ''foo'', Version = ''v1'', Required = True\<rparr>),
            (''b'', \<lparr>ModuleName = ''foo'', Version = ''v1'', Required = False\<rparr>)])
     = Some (New ''only one version of a plugin is allowed, there is a duplicate of foo'') \<and>
   SetupRemotePlugins (stub_client {} {})
     (Some [(''a'', \<lparr>ModuleName = ''foo'', Version = ''v1'', Required = True\<rparr>),
            (''b'', \<lparr>ModuleName = ''foo'', Version = ''v1'', Required = False\<rparr>)]) w0
     = (Some (Errorf ''invalid configuration: %w''
          [E (New ''only one version of a plugin is allowed, there is a duplicate of foo'')]),
        Some [(''a'', \<lparr>ModuleName = ''foo'', Version = ''v1'', Required = True\<rparr>),
              (''b'', \<lparr>ModuleName = ''foo'', Version = ''v1'', Required = False\<rparr>)], w0) \<and>
   made w0 (snd (snd (SetupRemotePlugins (stub_client {} {})
     (Some [(''a'', \<lparr>ModuleName = ''foo'', Version = ''v1'', Required = True\<rparr>),
            (''b'', \<lparr>ModuleName = ''foo'', Version = ''v1'', Required = False\<rparr>)]) w0))) = []"
proof -
  have h: "checkRemotePluginsConfiguration
     (Some [(''a'', \<lparr>ModuleName = ''foo'', Version = ''v1'', Required = True\<rparr>),
            (''b'', \<lparr>ModuleName = ''foo'', Version = ''v1'', Required = False\<rparr>)])
     = Some (New ''only one version of a plugin is allowed, there is a duplicate of foo'')"
    by (simp add: eval_defs)
  have d: "(0::nat) < 1 \<and>
     1 < length [(''a'', \<lparr>ModuleName = ''foo'', Version = ''v1'', Required = True\<rparr>),
                 (''b'', \<lparr>ModuleName = ''foo'', Version = ''v1'', Required = False\<rparr>)] \<and>
     ModuleName (snd ([(''a'', \<lparr>ModuleName = ''foo'', Version = ''v1'', Required = True\<rparr>),
                       (''b'', \<lparr>ModuleName = ''foo'', Version = ''v1'', Required = False\<rparr>)] ! 0)) =
     ModuleName (snd ([(''a'', \<lparr>ModuleName = ''foo'', Version = ''v1'', Required = True\<rparr>),
                       (''b'', \<lparr>ModuleName = ''foo'', Version = ''v1'', Required = False\<rparr>)] ! 1))"
    by simp
  from invalid_configuration_no_client_call[of
     "Some [(''a'', \<lparr>ModuleName = ''foo'', Version = ''v1'', Required = True\<rparr>),
            (''b'', \<lparr>ModuleName = ''foo'', Version = ''v1'', Required = False\<rparr>)]"
     "New ''only one version of a plugin is allowed, there is a duplicate of foo''"
     "stub_client {} {}" w0 0 1
     "[(''a'', \<lparr>ModuleName = ''foo'', Version = ''v1'', Required = True\<rparr>),
       (''b'', \<lparr>ModuleName = ''foo'', Version = ''v1'', Required = False\<rparr>)]"] h d
  show ?thesis by blast
qed




text \<open>
  Claim C8. When every call on the client succeeds in two runs of \<open>SetupRemotePlugins\<close> on
  the same mapping, one after the other, the first run leaves the mapping as it was and both
  runs make the same \<open>WriteState\<close> calls: for a valid mapping one call each, with that
  mapping.
\<close>

theorem all_success_same_state_twice:
  assumes "SetupRemotePlugins client plugins w = (r1, p1, w1)"
    and "SetupRemotePlugins client plugins w1 = (r2, p2, w2)"
    and "\<forall>(c, x) \<in> set (made w w1). x = None"
    and "\<forall>(c, x) \<in> set (made w1 w2). x = None"
  shows "p1 = plugins \<and> p2 = plugins \<and>
         filter isWriteState (made w w1) = filter isWriteState (made w1 w2) \<and>
         (checkRemotePluginsConfiguration plugins = None \<longrightarrow>
            r1 = None \<and> r2 = None \<and>
            filter isWriteState (made w w1) = [(WriteStateCall plugins, None)] \<and>
            filter isWriteState (made w1 w2) = [(WriteStateCall plugins, None)])"
  using all_ok_run[OF assms(1,3)] all_ok_run[OF assms(2,4)]
  by (cases "checkRemotePluginsConfiguration plugins") simp_all

theorem all_success_same_state_twice_witness:
  "SetupRemotePlugins (stub_client {} {}) two_plugins w0 =
     (None, two_plugins,
      \<lparr>store = (),
       calls = [(CleanArchivesCall two_plugins, None),
                (DownloadCall ''foo/bar'' ''v1'', None),
                (CheckCall ''foo/bar'' ''v1'' ''hash'', None),
                (UnzipCall ''foo/bar'' ''v1'', None),
                (DownloadCall ''opt'' ''v2'', None),
                (CheckCall ''opt'' ''v2'' ''hash'', None),
                (UnzipCall ''opt'' ''v2'', None),
                (WriteStateCall two_plugins, None)]\<rparr>) \<and>
   filter isWriteState
     (made w0 (snd (snd (SetupRemotePlugins (stub_client {} {}) two_plugins w0))))
     = [(WriteStateCall two_plugins, None)] \<and>
   filter isWriteState
     (made (snd (snd (SetupRemotePlugins (stub_client {} {}) two_plugins w0)))
        (snd (snd (SetupRemotePlugins (stub_client {} {}) two_plugins
           (snd (snd (SetupRemotePlugins (stub_client {} {}) two_plugins w0)))))))
     = [(WriteStateCall two_plugins, None)]"
proof -
  define w1 :: "unit world" where "w1 = \<lparr>store = (),
       calls = [(CleanArchivesCall two_plugins, None),
                (DownloadCall ''foo/bar'' ''v1'', None),
                (CheckCall ''foo/bar'' ''v1'' ''hash'', None),
                (UnzipCall ''foo/bar'' ''v1'', None),
                (DownloadCall ''opt'' ''v2'', None),
                (CheckCall ''opt'' ''v2'' ''hash'', None),
                (UnzipCall ''opt'' ''v2'', None),
                (WriteStateCall two_plugins, None)]\<rparr>"
  define w2 :: "unit world" where "w2 = \<lparr>store = (),
       calls = calls w1 @ calls w1\<rparr>"
  have run1: "SetupRemotePlugins (stub_client {} {}) two_plugins w0 = (None, two_plugins, w1)"
    by (simp add: eval_defs example_defs w1_def)
  have run2: "SetupRemotePlugins (stub_client {} {}) two_plugins w1 = (None, two_plugins, w2)"
    by (simp add: eval_defs example_defs w1_def w2_def)
  have ok1: "\<forall>(c, x) \<in> set (made w0 w1). x = None"
    by (simp add: made_def w0_def w1_def)
  have ok2: "\<forall>(c, x) \<in> set (made w1 w2). x = None"
    by (simp add: made_def w2_def w1_def)
  have valid: "checkRemotePluginsConfiguration two_plugins = None"
    by (simp add: eval_defs example_defs)
  from all_success_same_state_twice[OF run1 run2 ok1 ok2] valid
  have "filter isWriteState (made w0 w1) = [(WriteStateCall two_plugins, None)]"
    "filter isWriteState (made w1 w2) = [(WriteStateCall two_plugins, None)]" by simp_all
  with run1 run2 show ?thesis by (simp only: snd_conv w1_def, blast?)
qed

text \<open>
  Claim C10. On the nil mapping validation returns nil, \<open>SetupRemotePlugins\<close> calls
  \<open>CleanArchives\<close> with the nil mapping and, when that succeeds, calls \<open>WriteState\<close> with
  the nil mapping.
\<close>

theorem nil_mapping_still_cleans_and_writes:
  assumes "CleanArchives client None (store w) = (rc, s1)"
    and "WriteState client None s1 = (rw, s2)"
    and "SetupRemotePlugins client None w = (r, plugins', w')"
  shows "checkRemotePluginsConfiguration None = None \<and>
         take 1 (made w w') = [(CleanArchivesCall None, rc)] \<and>
         (rc = None \<longrightarrow>
            take 2 (made w w') = [(CleanArchivesCall None, None), (WriteStateCall None, rw)] \<and>
            plugins' = None \<and>
            (rw = None \<longrightarrow>
               r = None \<and> made w w' = [(CleanArchivesCall None, None), (WriteStateCall None, None)]))"
proof -
  have v: "checkRemotePluginsConfiguration None = None"
    by (simp add: checkRemotePluginsConfiguration_def)
  show ?thesis
  proof (cases rc)
    case (Some e)
    with assms v show ?thesis
      by (auto simp: SetupRemotePlugins_def client_CleanArchives_def made_def)
  next
    case None
    show ?thesis
    proof (cases rw)
      case N: None
      with None assms v show ?thesis
        by (auto simp: SetupRemotePlugins_def client_CleanArchives_def client_WriteState_def
            made_def entries_def)
    next
      case (Some e)
      obtain x s3 where "ResetAll client s2 = (x, s3)" by force
      with Some None assms v show ?thesis
        by (auto simp: SetupRemotePlugins_def client_CleanArchives_def client_WriteState_def
            client_ResetAll_def made_def entries_def)
    qed
  qed
qed

theorem nil_mapping_still_cleans_and_writes_witness:
  "SetupRemotePlugins (stub_client {} {}) None w0 =
     (None, None, \<lparr>store = (), calls = [(CleanArchivesCall None, None), (WriteStateCall None, None)]\<rparr>) \<and>
   made w0 \<lparr>store = (), calls = [(CleanArchivesCall None, None), (WriteStateCall None, None)]\<rparr>
     = [(CleanArchivesCall None, None), (WriteStateCall None, None)]"
proof -
  have 1: "CleanArchives (stub_client {} {}) None (store w0) = (None, ())"
    by (simp add: stub_client_def)
  have 2: "WriteState (stub_client {} {}) None () = (None, ())"
    by (simp add: stub_client_def)
  have 3: "SetupRemotePlugins (stub_client {} {}) None w0 =
     (None, None, \<lparr>store = (), calls = [(CleanArchivesCall None, None), (WriteStateCall None, None)]\<rparr>)"
    by (simp add: eval_defs)
  from nil_mapping_still_cleans_and_writes[OF 1 2 3] 3 show ?thesis by simp
qed

section \<open>The claims on validation\<close>

text \<open>
  Claim C5. An entry whose module name starts or ends with \<open>/\<close>, or whose module name is
  already in \<open>uniq\<close>, adds the messages on a missing name or version and the message of its
  violation, and nothing else: \<open>uniq\<close> stays as the entries before it left it and, in
  \<open>SetupLocalPlugins\<close>, the manifest is not checked. The entries after it are checked all the
  same, their violations follow in the list, and the returned error holds the whole list.
\<close>

theorem short_circuit_per_entry_collect_all:
  "(HasPrefix (ModuleName d) ''/'' \<or> HasSuffix (ModuleName d) ''/'' \<or>
    ModuleName d \<in> fst (checkRemote_range pre ({}, [])) \<longrightarrow>
      snd (checkRemote_range (pre @ (a, d) # post) ({}, [])) =
        snd (checkRemote_range pre ({}, [])) @
        (if ModuleName d = [] then [a @ '': plugin name is missing''] else []) @
        (if Version d = [] then [a @ '': plugin version is missing''] else []) @
        [if HasPrefix (ModuleName d) ''/'' \<or> HasSuffix (ModuleName d) ''/''
         then a @ '': plugin name should not start or end with a /''
         else ''only one version of a plugin is allowed, there is a duplicate of '' @ ModuleName d] @
        snd (checkRemote_range post (fst (checkRemote_range pre ({}, [])), [])) \<and>
      checkRemotePluginsConfiguration (Some (pre @ (a, d) # post)) =
        Some (New (Join (snd (checkRemote_range (pre @ (a, d) # post) ({}, []))) '': ''))) \<and>
   (HasPrefix (LModuleName l) ''/'' \<or> HasSuffix (LModuleName l) ''/'' \<or>
    LModuleName l \<in> fst (setupLocal_range ext lpre ({}, [])) \<longrightarrow>
      snd (setupLocal_range ext (lpre @ (b, l) # lpost) ({}, [])) =
        snd (setupLocal_range ext lpre ({}, [])) @
        (if LModuleName l = [] then [Errorf ''%s: plugin name is missing'' [S b]] else []) @
        [if HasPrefix (LModuleName l) ''/'' \<or> HasSuffix (LModuleName l) ''/''
         then Errorf ''%s: plugin name should not start or end with a /'' [S b]
         else Errorf ''only one version of a plugin is allowed, there is a duplicate of %s''
                [S (LModuleName l)]] @
        snd (setupLocal_range ext lpost (fst (setupLocal_range ext lpre ({}, [])), [])) \<and>
      SetupLocalPlugins ext (Some (lpre @ (b, l) # lpost)) =
        Some (Multi (snd (setupLocal_range ext (lpre @ (b, l) # lpost) ({}, [])))))"
proof (intro conjI impI)
  assume h: "HasPrefix (ModuleName d) ''/'' \<or> HasSuffix (ModuleName d) ''/'' \<or>
    ModuleName d \<in> fst (checkRemote_range pre ({}, []))"
  from checkRemote_range_split[of pre "(a, d)" post] checkRemote_body_short_circuit[OF h, of a]
  show r: "snd (checkRemote_range (pre @ (a, d) # post) ({}, [])) =
        snd (checkRemote_range pre ({}, [])) @
        (if ModuleName d = [] then [a @ '': plugin name is missing''] else []) @
        (if Version d = [] then [a @ '': plugin version is missing''] else []) @
        [if HasPrefix (ModuleName d) ''/'' \<or> HasSuffix (ModuleName d) ''/''
         then a @ '': plugin name should not start or end with a /''
         else ''only one version of a plugin is allowed, there is a duplicate of '' @ ModuleName d] @
        snd (checkRemote_range post (fst (checkRemote_range pre ({}, [])), []))"
    by simp
  then have "snd (checkRemote_range (pre @ (a, d) # post) ({}, [])) \<noteq> []" by simp
  then show "checkRemotePluginsConfiguration (Some (pre @ (a, d) # post)) =
        Some (New (Join (snd (checkRemote_range (pre @ (a, d) # post) ({}, []))) '': ''))"
    by (rule checkRemote_nonempty_error)
next
  assume h: "HasPrefix (LModuleName l) ''/'' \<or> HasSuffix (LModuleName l) ''/'' \<or>
    LModuleName l \<in> fst (setupLocal_range ext lpre ({}, []))"
  from setupLocal_range_split[of ext lpre "(b, l)" lpost] setupLocal_body_short_circuit[OF h, of ext b]
  show r: "snd (setupLocal_range ext (lpre @ (b, l) # lpost) ({}, [])) =
        snd (setupLocal_range ext lpre ({}, [])) @
        (if LModuleName l = [] then [Errorf ''%s: plugin name is missing'' [S b]] else []) @
        [if HasPrefix (LModuleName l) ''/'' \<or> HasSuffix (LModuleName l) ''/''
         then Errorf ''%s: plugin name should not start or end with a /'' [S b]
         else Errorf ''only one version of a plugin is allowed, there is a duplicate of %s''
                [S (LModuleName l)]] @
        snd (setupLocal_range ext lpost (fst (setupLocal_range ext lpre ({}, [])), []))"
    by simp
  then have "snd (setupLocal_range ext (lpre @ (b, l) # lpost) ({}, [])) \<noteq> []" by simp
  then show "SetupLocalPlugins ext (Some (lpre @ (b, l) # lpost)) =
        Some (Multi (snd (setupLocal_range ext (lpre @ (b, l) # lpost) ({}, []))))"
    by (rule SetupLocalPlugins_nonempty_error)
qed

theorem short_circuit_per_entry_collect_all_witness:
  "snd (checkRemote_range ([(''a'', plain_foo)] @ (''b'', slash_bar) # [(''c'', plain_foo)]) ({}, []))
     = [''b: plugin name should not start or end with a /'',
        ''only one version of a plugin is allowed, there is a duplicate of foo''] \<and>
   checkRemotePluginsConfiguration
       (Some ([(''a'', plain_foo)] @ (''b'', slash_bar) # [(''c'', plain_foo)]))
     = Some (New (Join [''b: plugin name should not start or end with a /'',
                        ''only one version of a plugin is allowed, there is a duplicate of foo'']
                    '': '')) \<and>
   snd (setupLocal_range stub_externals
          ([(''a'', \<lparr>LModuleName = ''foo''\<rparr>)] @ (''b'', \<lparr>LModuleName = ''foo''\<rparr>)
             # [(''c'', \<lparr>LModuleName = ''bar/''\<rparr>)]) ({}, []))
     = [New ''manifest not found'',
        Errorf ''only one version of a plugin is allowed, there is a duplicate of %s'' [S ''foo''],
        Errorf ''%s: plugin name should not start or end with a /'' [S ''c'']]"
proof -
  have h: "HasPrefix (ModuleName slash_bar) ''/'' \<or> HasSuffix (ModuleName slash_bar) ''/'' \<or>
           ModuleName slash_bar \<in> fst (checkRemote_range [(''a'', plain_foo)] ({}, []))"
    by (simp add: validation_defs)
  have lh: "HasPrefix (LModuleName \<lparr>LModuleName = ''foo''\<rparr>) ''/'' \<or>
            HasSuffix (LModuleName \<lparr>LModuleName = ''foo''\<rparr>) ''/'' \<or>
            LModuleName \<lparr>LModuleName = ''foo''\<rparr>
              \<in> fst (setupLocal_range stub_externals [(''a'', \<lparr>LModuleName = ''foo''\<rparr>)] ({}, []))"
    by (simp add: validation_defs)
  note t = short_circuit_per_entry_collect_all[of slash_bar "[(''a'', plain_foo)]" "''b''"
      "[(''c'', plain_foo)]" "\<lparr>LModuleName = ''foo''\<rparr>" stub_externals
      "[(''a'', \<lparr>LModuleName = ''foo''\<rparr>)]" "''b''" "[(''c'', \<lparr>LModuleName = ''bar/''\<rparr>)]"]
  have r: "snd (checkRemote_range [(''a'', plain_foo)] ({}, [])) @
        (if ModuleName slash_bar = [] then [''b'' @ '': plugin name is missing''] else []) @
        (if Version slash_bar = [] then [''b'' @ '': plugin version is missing''] else []) @
        [if HasPrefix (ModuleName slash_bar) ''/'' \<or> HasSuffix (ModuleName slash_bar) ''/''
         then ''b'' @ '': plugin name should not start or end with a /''
         else ''only one version of a plugin is allowed, there is a duplicate of '' @ ModuleName slash_bar] @
        snd (checkRemote_range [(''c'', plain_foo)] (fst (checkRemote_range [(''a'', plain_foo)] ({}, [])), []))
      = [''b: plugin name should not start or end with a /'',
         ''only one version of a plugin is allowed, there is a duplicate of foo'']"
    by (simp add: validation_defs)
  have lr: "snd (setupLocal_range stub_externals [(''a'', \<lparr>LModuleName = ''foo''\<rparr>)] ({}, [])) @
        (if LModuleName \<lparr>LModuleName = ''foo''\<rparr> = [] then [Errorf ''%s: plugin name is missing'' [S ''b'']] else []) @
        [if HasPrefix (LModuleName \<lparr>LModuleName = ''foo''\<rparr>) ''/'' \<or> HasSuffix (LModuleName \<lparr>LModuleName = ''foo''\<rparr>) ''/''
         then Errorf ''%s: plugin name should not start or end with a /'' [S ''b'']
         else Errorf ''only one version of a plugin is allowed, there is a duplicate of %s''
                [S (LModuleName \<lparr>LModuleName = ''foo''\<rparr>)]] @
        snd (setupLocal_range stub_externals [(''c'', \<lparr>LModuleName = ''bar/''\<rparr>)]
               (fst (setupLocal_range stub_externals [(''a'', \<lparr>LModuleName = ''foo''\<rparr>)] ({}, [])), []))
      = [New ''manifest not found'',
        Errorf ''only one version of a plugin is allowed, there is a duplicate of %s'' [S ''foo''],
        Errorf ''%s: plugin name should not start or end with a /'' [S ''c'']]"
    by (simp add: validation_defs)
  from t h have 1: "snd (checkRemote_range ([(''a'', plain_foo)] @ (''b'', slash_bar) # [(''c'', plain_foo)]) ({}, []))
     = [''b: plugin name should not start or end with a /'',
        ''only one version of a plugin is allowed, there is a duplicate of foo'']"
    unfolding r by blast
  from t h have 2: "checkRemotePluginsConfiguration
       (Some ([(''a'', plain_foo)] @ (''b'', slash_bar) # [(''c'', plain_foo)]))
     = Some (New (Join (snd (checkRemote_range ([(''a'', plain_foo)] @ (''b'', slash_bar) # [(''c'', plain_foo)]) ({}, []))) '': ''))"
    by blast
  from t lh have 3: "snd (setupLocal_range stub_externals
          ([(''a'', \<lparr>LModuleName = ''foo''\<rparr>)] @ (''b'', \<lparr>LModuleName = ''foo''\<rparr>)
             # [(''c'', \<lparr>LModuleName = ''bar/''\<rparr>)]) ({}, []))
     = [New ''manifest not found'',
        Errorf ''only one version of a plugin is allowed, there is a duplicate of %s'' [S ''foo''],
        Errorf ''%s: plugin name should not start or end with a /'' [S ''c'']]"
    unfolding lr by blast
  from 1 2[unfolded 1] 3 show ?thesis by (intro conjI)
qed

text \<open>
  Claim C7. For a manifest that has been read, a middleware has one unsupported-runtime
  violation when its runtime is none of interpreted, sandboxed-bytecode and empty, and none
  otherwise; a provider has one when its runtime is neither interpreted nor empty, and none
  otherwise. A provider with the sandboxed-bytecode runtime gets exactly that one violation,
  followed by the violations of the remaining fields.
\<close>

theorem runtime_allowed_by_type:
  assumes "ReadManifest ext localGoPath (LModuleName descriptor) = Inr m"
  shows "checkLocalPluginManifest ext descriptor = ErrorOrNil (manifest_errs ext descriptor m) \<and>
         (Type m = typeMiddleware \<longrightarrow>
            filter isUnsupportedRuntime (manifest_errs ext descriptor m) =
              (if Runtime m \<noteq> runtimeYaegi \<and> Runtime m \<noteq> runtimeWasm \<and> Runtime m \<noteq> []
               then [Errorf unsupportedRuntimeFormat [S (LModuleName descriptor), S (Runtime m)]]
               else [])) \<and>
         (Type m = typeProvider \<longrightarrow>
            filter isUnsupportedRuntime (manifest_errs ext descriptor m) =
              (if Runtime m \<noteq> runtimeYaegi \<and> Runtime m \<noteq> []
               then [Errorf unsupportedRuntimeFormat [S (LModuleName descriptor), S (Runtime m)]]
               else [])) \<and>
         (Type m = typeProvider \<and> Runtime m = runtimeWasm \<longrightarrow>
            checkLocalPluginManifest ext descriptor =
              Some (Multi (Errorf unsupportedRuntimeFormat [S (LModuleName descriptor), S runtimeWasm]
                           # field_errs ext descriptor m)) \<and>
            filter isUnsupportedRuntime (field_errs ext descriptor m) = [])"
proof -
  have ret: "checkLocalPluginManifest ext descriptor = ErrorOrNil (manifest_errs ext descriptor m)"
    using assms by (simp add: checkLocalPluginManifest_def)
  have is_rt: "isUnsupportedRuntime (Errorf unsupportedRuntimeFormat args)" for args
    by (simp add: isUnsupportedRuntime_def)
  have mw: "filter isUnsupportedRuntime (manifest_errs ext descriptor m) =
              (if Runtime m \<noteq> runtimeYaegi \<and> Runtime m \<noteq> runtimeWasm \<and> Runtime m \<noteq> []
               then [Errorf unsupportedRuntimeFormat [S (LModuleName descriptor), S (Runtime m)]]
               else [])" if "Type m = typeMiddleware"
    using that by (simp add: manifest_errs_split field_errs_no_runtime is_rt)
  have pr: "filter isUnsupportedRuntime (manifest_errs ext descriptor m) =
              (if Runtime m \<noteq> runtimeYaegi \<and> Runtime m \<noteq> []
               then [Errorf unsupportedRuntimeFormat [S (LModuleName descriptor), S (Runtime m)]]
               else [])" if "Type m = typeProvider"
    using that constants_distinct(1)
    by (simp add: manifest_errs_split field_errs_no_runtime is_rt)
  have wp: "checkLocalPluginManifest ext descriptor =
              Some (Multi (Errorf unsupportedRuntimeFormat [S (LModuleName descriptor), S runtimeWasm]
                           # field_errs ext descriptor m))"
    if "Type m = typeProvider \<and> Runtime m = runtimeWasm"
    using that constants_distinct ret
    by (simp add: manifest_errs_split ErrorOrNil_def)
  from ret mw pr wp field_errs_no_runtime[of ext descriptor m] show ?thesis by blast
qed

theorem runtime_allowed_by_type_witness:
  "checkLocalPluginManifest stub_externals \<lparr>LModuleName = ''prov''\<rparr> =
     Some (Multi [Errorf unsupportedRuntimeFormat [S ''prov'', S runtimeWasm],
                  Errorf ''%s: missing DisplayName'' [S ''prov''],
                  Errorf ''%s: missing TestData'' [S ''prov'']]) \<and>
   filter isUnsupportedRuntime (manifest_errs stub_externals \<lparr>LModuleName = ''prov''\<rparr> wasm_provider)
     = [Errorf unsupportedRuntimeFormat [S ''prov'', S runtimeWasm]]"
proof -
  have rd: "ReadManifest stub_externals localGoPath (LModuleName \<lparr>LModuleName = ''prov''\<rparr>)
              = Inr wasm_provider"
    by (simp add: stub_externals_def)
  have ty: "Type wasm_provider = typeProvider \<and> Runtime wasm_provider = runtimeWasm"
    by (simp add: wasm_provider_def)
  have fe: "field_errs stub_externals \<lparr>LModuleName = ''prov''\<rparr> wasm_provider =
              [Errorf ''%s: missing DisplayName'' [S ''prov''],
               Errorf ''%s: missing TestData'' [S ''prov'']]"
    by (simp add: field_errs_def stub_externals_def wasm_provider_def
        runtimeWasm_def runtimeYaegi_def)
  have rt: "Runtime wasm_provider \<noteq> runtimeYaegi \<and> Runtime wasm_provider \<noteq> []"
    by (simp add: wasm_provider_def runtimeWasm_def runtimeYaegi_def)
  note t = runtime_allowed_by_type[OF rd]
  from t ty
  have c: "checkLocalPluginManifest stub_externals \<lparr>LModuleName = ''prov''\<rparr> =
          Some (Multi (Errorf unsupportedRuntimeFormat
                         [S (LModuleName \<lparr>LModuleName = ''prov''\<rparr>), S runtimeWasm]
                       # field_errs stub_externals \<lparr>LModuleName = ''prov''\<rparr> wasm_provider))"
    by blast
  from t ty
  have "filter isUnsupportedRuntime (manifest_errs stub_externals \<lparr>LModuleName = ''prov''\<rparr> wasm_provider)
       = (if Runtime wasm_provider \<noteq> runtimeYaegi \<and> Runtime wasm_provider \<noteq> []
          then [Errorf unsupportedRuntimeFormat
                  [S (LModuleName \<lparr>LModuleName = ''prov''\<rparr>), S (Runtime wasm_provider)]]
          else [])"
    by blast
  with rt
  have f: "filter isUnsupportedRuntime (manifest_errs stub_externals \<lparr>LModuleName = ''prov''\<rparr> wasm_provider)
       = [Errorf unsupportedRuntimeFormat
            [S (LModuleName \<lparr>LModuleName = ''prov''\<rparr>), S (Runtime wasm_provider)]]"
    by simp
  from c f fe ty show ?thesis by simp
qed



end
